theory Spec2Isabelle
  imports Complex_Main "HOL-Library.Char_ord" "HOL-Library.List_Lexorder"
begin

section \<open>Data model\<close>

text \<open>
  Exceptions of the two scripts, as values. \<open>UnknownAlgorithm\<close>, \<open>NoModelToSave\<close> and
  \<open>MissingFeatures\<close> are the three \<^verbatim>\<open>ValueError\<close>s the repository raises itself; the
  message of the last one prints a Python set, so it carries a set of names.
  \<open>AttributeError\<close> is a method call on \<^verbatim>\<open>None\<close>; \<open>LibraryError\<close> is anything raised
  inside pandas, scikit-learn or joblib.
\<close>

datatype error =
    UnknownAlgorithm string
  | NoModelToSave
  | MissingFeatures "string set"
  | AttributeError
  | LibraryError string

text \<open>
  A pandas column is numeric or of dtype \<^verbatim>\<open>object\<close> (strings); \<open>None\<close> is a missing
  cell (NaN). A frame is its row count (the index) and its named columns in order.
  Floating-point numbers are idealised as reals.
\<close>

datatype column = NumCol "real option list" | ObjCol "string option list"

record frame =
  nrows :: nat
  columns :: "(string \<times> column) list"

text \<open>The target series: numeric, or of dtype \<^verbatim>\<open>object\<close>.\<close>

datatype target = NumT "real list" | ObjT "string list"

text \<open>A two-dimensional array of features, as the list of its rows.\<close>

type_synonym matrix = "real option list list"

text \<open>
  The array \<^verbatim>\<open>predict_proba\<close> returns, of shape (rows, classes), as the list of its
  class columns: \<^verbatim>\<open>shape[1]\<close> is the length of the list and \<^verbatim>\<open>[:, j]\<close> its j-th
  element.
\<close>

type_synonym proba = "real list list"

text \<open>
  \<^verbatim>\<open>StandardScaler()\<close> is unfitted until \<^verbatim>\<open>fit\<close> stores the column names of the table
  it was given (\<^verbatim>\<open>feature_names_in_\<close>) and the per-column mean and scale (NaN for a
  column without a present cell).
\<close>

datatype standard_scaler =
    Unfitted
  | Fitted (sc_names: "string list") (sc_mean: "real option list")
      (sc_scale: "real option list")

text \<open>\<^verbatim>\<open>coef_\<close> of a linear model is one- or two-dimensional.\<close>

datatype coefs = Coef1 "real list" | Coef2 "real list list"

text \<open>
  A scikit-learn estimator object, by the capabilities the scripts probe with
  \<^verbatim>\<open>hasattr\<close>: \<^verbatim>\<open>predict\<close> always, \<^verbatim>\<open>predict_proba\<close>, \<^verbatim>\<open>feature_importances_\<close> and
  \<^verbatim>\<open>coef_\<close> when present (the fields drop the trailing underscore). What the
  functions compute is left open.
\<close>

record sk_model =
  predict :: "matrix \<Rightarrow> error + real list"
  predict_proba :: "(matrix \<Rightarrow> error + proba) option"
  feature_importances :: "real list option"
  coef :: "coefs option"

datatype hval = HInt int | HReal real | HStr string | HBool bool | HNone

text \<open>The attributes of \<^verbatim>\<open>MLTrainer\<close>, as \<^verbatim>\<open>__init__\<close> declares them.\<close>

record trainer =
  algorithm :: string
  problem_type :: string
  hyperparameters :: "(string \<times> hval) list"
  model :: "sk_model option"
  scaler :: "standard_scaler option"
  label_encoder :: "string list option"
  feature_names :: "string list"

definition init_trainer :: "string \<Rightarrow> string \<Rightarrow> (string \<times> hval) list \<Rightarrow> trainer" where
  "init_trainer alg pt hp =
     \<lparr>algorithm = alg, problem_type = pt, hyperparameters = hp, model = None,
      scaler = None, label_encoder = None, feature_names = []\<rparr>"

section \<open>Algorithm registry\<close>

datatype estimator =
    LogisticRegression | RandomForestClassifier | GradientBoostingClassifier
  | KNeighborsClassifier | LinearRegression | RandomForestRegressor
  | GradientBoostingRegressor | KNeighborsRegressor

definition CLASSIFICATION_ALGORITHMS :: "string \<rightharpoonup> estimator" where
  "CLASSIFICATION_ALGORITHMS =
     [''logistic_regression'' \<mapsto> LogisticRegression,
      ''random_forest'' \<mapsto> RandomForestClassifier,
      ''gradient_boosting'' \<mapsto> GradientBoostingClassifier,
      ''knn'' \<mapsto> KNeighborsClassifier]"

definition REGRESSION_ALGORITHMS :: "string \<rightharpoonup> estimator" where
  "REGRESSION_ALGORITHMS =
     [''linear_regression'' \<mapsto> LinearRegression,
      ''random_forest'' \<mapsto> RandomForestRegressor,
      ''gradient_boosting'' \<mapsto> GradientBoostingRegressor,
      ''knn'' \<mapsto> KNeighborsRegressor]"

definition get_model_class :: "trainer \<Rightarrow> estimator option" where
  "get_model_class t =
     (if problem_type t = ''classification''
      then CLASSIFICATION_ALGORITHMS (algorithm t)
      else REGRESSION_ALGORITHMS (algorithm t))"

section \<open>The library transformers the scripts call\<close>

subsection \<open>LabelEncoder\<close>

text \<open>
  \<^verbatim>\<open>LabelEncoder.fit\<close> stores the sorted distinct values as \<^verbatim>\<open>classes_\<close>.
  \<^verbatim>\<open>fit_transform\<close> returns, for each value, its position in the sorted distinct
  values of the same input, which is the number of classes below it.
  \<^verbatim>\<open>transform\<close> maps a value to its position in the stored \<^verbatim>\<open>classes_\<close> and raises
  on a value that is not there; \<^verbatim>\<open>inverse_transform\<close> maps a position back and
  raises on anything that is not a position.
\<close>

fun index_of :: "'a list \<Rightarrow> 'a \<Rightarrow> nat option" where
  "index_of [] x = None"
| "index_of (y # ys) x = (if x = y then Some 0 else map_option Suc (index_of ys x))"

definition le_fit :: "string list \<Rightarrow> string list" where
  "le_fit ys = sort (remdups ys)"

definition le_fit_transform :: "string list \<Rightarrow> real list" where
  "le_fit_transform ys = map (\<lambda>y. real (length (filter (\<lambda>c. c < y) (le_fit ys)))) ys"

fun le_transform :: "string list \<Rightarrow> string list \<Rightarrow> error + real list" where
  "le_transform classes [] = Inr []"
| "le_transform classes (y # ys) =
     (case index_of classes y of
        None \<Rightarrow> Inl (LibraryError ''y contains previously unseen labels'')
      | Some i \<Rightarrow>
          (case le_transform classes ys of
             Inl e \<Rightarrow> Inl e
           | Inr cs \<Rightarrow> Inr (real i # cs)))"

fun le_inverse_transform :: "string list \<Rightarrow> real list \<Rightarrow> error + string list" where
  "le_inverse_transform classes [] = Inr []"
| "le_inverse_transform classes (p # ps) =
     (if 0 \<le> p \<and> p = real_of_int \<lfloor>p\<rfloor> \<and> nat \<lfloor>p\<rfloor> < length classes
      then (case le_inverse_transform classes ps of
              Inl e \<Rightarrow> Inl e
            | Inr ss \<Rightarrow> Inr (classes ! nat \<lfloor>p\<rfloor> # ss))
      else Inl (LibraryError ''y contains previously unseen labels''))"

subsection \<open>SimpleImputer with the mean strategy\<close>

definition present :: "'a option list \<Rightarrow> 'a list" where
  "present xs = [x. Some x \<leftarrow> xs]"

fun column_has_null :: "column \<Rightarrow> bool" where
  "column_has_null (NumCol xs) = (None \<in> set xs)"
| "column_has_null (ObjCol ss) = (None \<in> set ss)"

text \<open>\<^verbatim>\<open>X.isnull().any().any()\<close>\<close>

definition has_null :: "frame \<Rightarrow> bool" where
  "has_null X = list_ex (\<lambda>(name, c). column_has_null c) (columns X)"

fun is_object :: "column \<Rightarrow> bool" where
  "is_object (ObjCol ss) = True"
| "is_object (NumCol xs) = False"

text \<open>
  The mean strategy refuses non-numeric data. A numeric column is filled with the mean
  of its present cells; a column with no present cell is dropped by the imputer, and
  rebuilding the frame under the old column names then fails on the shape.
\<close>

fun impute_column :: "column \<Rightarrow> error + column" where
  "impute_column (ObjCol ss) =
     Inl (LibraryError ''Cannot use mean strategy with non-numeric data'')"
| "impute_column (NumCol xs) =
     (case present xs of
        [] \<Rightarrow> Inl (LibraryError ''Shape of passed values does not match the columns'')
      | v # vs \<Rightarrow>
          (let m = sum_list (v # vs) / real (length (v # vs))
           in Inr (NumCol (map (\<lambda>c. case c of None \<Rightarrow> Some m | Some x \<Rightarrow> Some x) xs))))"

fun impute_columns :: "(string \<times> column) list \<Rightarrow> error + (string \<times> column) list" where
  "impute_columns [] = Inr []"
| "impute_columns ((name, c) # cs) =
     (case impute_column c of
        Inl e \<Rightarrow> Inl e
      | Inr c' \<Rightarrow>
          (case impute_columns cs of
             Inl e \<Rightarrow> Inl e
           | Inr cs' \<Rightarrow> Inr ((name, c') # cs')))"

definition imputer_fit_transform :: "frame \<Rightarrow> error + frame" where
  "imputer_fit_transform X =
     (if list_ex (\<lambda>(name, c). is_object c) (columns X)
      then Inl (LibraryError ''Cannot use mean strategy with non-numeric data'')
      else (case impute_columns (columns X) of
              Inl e \<Rightarrow> Inl e
            | Inr cs \<Rightarrow> Inr (X\<lparr>columns := cs\<rparr>)))"

subsection \<open>Encoding of the categorical feature columns\<close>

text \<open>\<^verbatim>\<open>astype(str)\<close> prints a missing cell as \<^verbatim>\<open>nan\<close>.\<close>

fun as_str :: "string option \<Rightarrow> string" where
  "as_str None = ''nan''"
| "as_str (Some s) = s"

text \<open>
  Each column of dtype \<^verbatim>\<open>object\<close> gets a new \<^verbatim>\<open>LabelEncoder()\<close>, fitted on the
  column at hand; the encoder is a local variable and is not kept.
\<close>

fun encode_column :: "column \<Rightarrow> real option list" where
  "encode_column (NumCol xs) = xs"
| "encode_column (ObjCol ss) = map Some (le_fit_transform (map as_str ss))"

definition encode_categoricals ::
  "(string \<times> column) list \<Rightarrow> (string \<times> real option list) list" where
  "encode_categoricals cs = map (\<lambda>(name, c). (name, encode_column c)) cs"

text \<open>\<^verbatim>\<open>X.values\<close>: the rows of a frame whose columns are all numeric.\<close>

definition nth_cell :: "real option list \<Rightarrow> nat \<Rightarrow> real option" where
  "nth_cell xs i = (if i < length xs then xs ! i else None)"

definition to_matrix :: "nat \<Rightarrow> (string \<times> real option list) list \<Rightarrow> matrix" where
  "to_matrix n cs = map (\<lambda>i. map (\<lambda>(name, xs). nth_cell xs i) cs) [0..<n]"

subsection \<open>StandardScaler\<close>

text \<open>
  The scaler is given a table: its column names and its values. \<^verbatim>\<open>fit\<close> stores the
  names and, per column, the mean and the standard deviation of the present cells, a
  zero deviation being replaced by 1; it refuses an array with no row or no column.
  \<^verbatim>\<open>transform\<close> refuses, in this order, an unfitted scaler, a table whose column names
  are not the fitted ones in the fitted order, an array with no row, and an array whose
  number of columns is not the fitted one; a missing cell stays missing.
\<close>

definition column_mean :: "real option list \<Rightarrow> real option" where
  "column_mean c =
     (case present c of
        [] \<Rightarrow> None
      | v # vs \<Rightarrow> Some (sum_list (v # vs) / real (length (v # vs))))"

definition column_scale :: "real option list \<Rightarrow> real option" where
  "column_scale c =
     (case present c of
        [] \<Rightarrow> None
      | v # vs \<Rightarrow>
          (let n = real (length (v # vs));
               m = sum_list (v # vs) / n;
               var = sum_list (map (\<lambda>x. (x - m) ^ 2) (v # vs)) / n
           in Some (if var = 0 then 1 else sqrt var)))"

definition scaler_fit :: "string list \<Rightarrow> matrix \<Rightarrow> error + standard_scaler" where
  "scaler_fit names M =
     (case M of
        [] \<Rightarrow> Inl (LibraryError ''Found array with 0 sample(s)'')
      | r # rs \<Rightarrow>
          (if r = [] then Inl (LibraryError ''Found array with 0 feature(s)'')
           else Inr (Fitted names (map column_mean (transpose M))
                            (map column_scale (transpose M)))))"

fun scale_row :: "real option list \<Rightarrow> real option list \<Rightarrow> real option list \<Rightarrow> real option list" where
  "scale_row (x # xs) (m # ms) (s # ss) =
     (case (x, m, s) of
        (Some a, Some b, Some c) \<Rightarrow> Some ((a - b) / c)
      | _ \<Rightarrow> None) # scale_row xs ms ss"
| "scale_row xs ms ss = []"

definition scaler_transform ::
  "standard_scaler \<Rightarrow> string list \<Rightarrow> matrix \<Rightarrow> error + matrix" where
  "scaler_transform sc names M =
     (case sc of
        Unfitted \<Rightarrow> Inl (LibraryError ''This StandardScaler instance is not fitted yet'')
      | Fitted fitted_names ms ss \<Rightarrow>
          (if names \<noteq> fitted_names
           then Inl (LibraryError
                  ''The feature names should match those that were passed during fit'')
           else if M = [] then Inl (LibraryError ''Found array with 0 sample(s)'')
           else if list_ex (\<lambda>r. length r \<noteq> length ms) M
           then Inl (LibraryError ''X has a different number of features'')
           else Inr (map (\<lambda>r. scale_row r ms ss) M)))"

section \<open>MLTrainer\<close>

subsection \<open>Preprocessing\<close>

text \<open>
  \<^verbatim>\<open>_preprocess_data\<close> returns the processed features and target, or raises; either
  way the trainer's attributes it assigned on the way stay assigned, so the model
  returns the trainer too.
\<close>

definition scale_features ::
  "trainer \<Rightarrow> string list \<Rightarrow> matrix \<Rightarrow> bool \<Rightarrow> (error + matrix) \<times> trainer" where
  "scale_features t names M is_training =
     (if algorithm t \<in> set [''logistic_regression'', ''knn'']
      then (if is_training
            then (case scaler_fit names M of
                    Inl e \<Rightarrow> (Inl e, t\<lparr>scaler := Some Unfitted\<rparr>)
                  | Inr sc \<Rightarrow> (scaler_transform sc names M, t\<lparr>scaler := Some sc\<rparr>))
            else (case scaler t of
                    None \<Rightarrow> (Inl AttributeError, t)
                  | Some sc \<Rightarrow> (scaler_transform sc names M, t)))
      else (Inr M, t))"

definition handle_target ::
  "trainer \<Rightarrow> target \<Rightarrow> bool \<Rightarrow> (error + target) \<times> trainer" where
  "handle_target t y is_training =
     (if problem_type t = ''classification''
      then (case y of
              ObjT ss \<Rightarrow>
                (if is_training
                 then (Inr (NumT (le_fit_transform ss)), t\<lparr>label_encoder := Some (le_fit ss)\<rparr>)
                 else (case label_encoder t of
                         None \<Rightarrow> (Inl AttributeError, t)
                       | Some classes \<Rightarrow>
                           (case le_transform classes ss of
                              Inl e \<Rightarrow> (Inl e, t)
                            | Inr cs \<Rightarrow> (Inr (NumT cs), t))))
            | NumT ys \<Rightarrow> (Inr y, t))
      else (Inr y, t))"

definition preprocess_data ::
  "trainer \<Rightarrow> frame \<Rightarrow> target \<Rightarrow> bool \<Rightarrow> (error + matrix \<times> target) \<times> trainer" where
  "preprocess_data t X y is_training =
     (let t1 = (if is_training then t\<lparr>feature_names := map fst (columns X)\<rparr> else t)
      in case (if has_null X then imputer_fit_transform X else Inr X) of
           Inl e \<Rightarrow> (Inl e, t1)
         | Inr X1 \<Rightarrow>
             (let M = to_matrix (nrows X1) (encode_categoricals (columns X1))
              in case scale_features t1 (map fst (columns X1)) M is_training of
                   (Inl e, t2) \<Rightarrow> (Inl e, t2)
                 | (Inr M', t2) \<Rightarrow>
                     (case handle_target t2 y is_training of
                        (Inl e, t3) \<Rightarrow> (Inl e, t3)
                      | (Inr y', t3) \<Rightarrow> (Inr (M', y'), t3))))"

subsection \<open>The library metrics the trainer calls\<close>

text \<open>
  The classification metrics of scikit-learn validate their two arguments first: the
  lengths must agree and the values must be class labels, which for numbers means
  integral values. Labels are compared after \<^verbatim>\<open>np.unique\<close>, the sorted distinct
  values. Empty arrays are refused.
\<close>

definition unique :: "'a::linorder list \<Rightarrow> 'a list" where
  "unique ys = sort (remdups ys)"

definition count_where :: "('a \<Rightarrow> bool) \<Rightarrow> 'a list \<Rightarrow> nat" where
  "count_where P xs = length (filter P xs)"

definition check_targets :: "real list \<Rightarrow> real list \<Rightarrow> error + unit" where
  "check_targets y_true y_pred =
     (if length y_true \<noteq> length y_pred
      then Inl (LibraryError ''Found input variables with inconsistent numbers of samples'')
      else if y_true = [] then Inl (LibraryError ''Found empty input array'')
      else if list_ex (\<lambda>v. v \<noteq> real_of_int \<lfloor>v\<rfloor>) (y_true @ y_pred)
      then Inl (LibraryError ''continuous is not supported'')
      else Inr ())"

definition accuracy_score :: "real list \<Rightarrow> real list \<Rightarrow> error + real" where
  "accuracy_score y_true y_pred =
     (case check_targets y_true y_pred of
        Inl e \<Rightarrow> Inl e
      | Inr u \<Rightarrow>
          Inr (real (count_where (\<lambda>(a, b). a = b) (zip y_true y_pred))
               / real (length y_true)))"

datatype average = Binary | Weighted

datatype score = Precision | Recall | F1

definition prf_divide :: "real \<Rightarrow> real \<Rightarrow> real \<Rightarrow> real" where
  "prf_divide numerator denominator zero_division =
     (if denominator = 0 then zero_division else numerator / denominator)"

definition tp_count :: "real \<Rightarrow> real list \<Rightarrow> real list \<Rightarrow> nat" where
  "tp_count l y_true y_pred = count_where (\<lambda>(a, b). a = l \<and> b = l) (zip y_true y_pred)"

definition pred_count :: "real \<Rightarrow> real list \<Rightarrow> nat" where
  "pred_count l y_pred = count_where (\<lambda>b. b = l) y_pred"

definition true_count :: "real \<Rightarrow> real list \<Rightarrow> nat" where
  "true_count l y_true = count_where (\<lambda>a. a = l) y_true"

fun label_score :: "score \<Rightarrow> real \<Rightarrow> real \<Rightarrow> real list \<Rightarrow> real list \<Rightarrow> real" where
  "label_score Precision zd l y_true y_pred =
     prf_divide (real (tp_count l y_true y_pred)) (real (pred_count l y_pred)) zd"
| "label_score Recall zd l y_true y_pred =
     prf_divide (real (tp_count l y_true y_pred)) (real (true_count l y_true)) zd"
| "label_score F1 zd l y_true y_pred =
     prf_divide (2 * real (tp_count l y_true y_pred))
       (real (true_count l y_true) + real (pred_count l y_pred)) zd"

text \<open>
  Binary averaging scores the positive label 1 alone, and is refused when more than
  two labels are present or when two are present and neither is 1. Weighted averaging
  is the mean of the per-label scores weighted by the number of true instances.
\<close>

definition prf_score ::
  "score \<Rightarrow> real list \<Rightarrow> real list \<Rightarrow> average \<Rightarrow> real \<Rightarrow> error + real" where
  "prf_score which y_true y_pred avg zd =
     (case check_targets y_true y_pred of
        Inl e \<Rightarrow> Inl e
      | Inr u \<Rightarrow>
          (let present_labels = unique (y_true @ y_pred)
           in case avg of
                Binary \<Rightarrow>
                  (if length present_labels > 2
                   then Inl (LibraryError ''Target is multiclass but average=binary'')
                   else if 1 \<notin> set present_labels \<and> length present_labels \<ge> 2
                   then Inl (LibraryError ''pos_label=1 is not a valid label'')
                   else Inr (label_score which zd 1 y_true y_pred))
              | Weighted \<Rightarrow>
                  (let weights = map (\<lambda>l. real (true_count l y_true)) present_labels
                   in if sum_list weights = 0 then Inr zd
                      else Inr (sum_list (map (\<lambda>l. real (true_count l y_true)
                                                   * label_score which zd l y_true y_pred)
                                              present_labels)
                                / sum_list weights))))"

definition precision_score :: "real list \<Rightarrow> real list \<Rightarrow> average \<Rightarrow> real \<Rightarrow> error + real" where
  "precision_score = prf_score Precision"

definition recall_score :: "real list \<Rightarrow> real list \<Rightarrow> average \<Rightarrow> real \<Rightarrow> error + real" where
  "recall_score = prf_score Recall"

definition f1_score :: "real list \<Rightarrow> real list \<Rightarrow> average \<Rightarrow> real \<Rightarrow> error + real" where
  "f1_score = prf_score F1"

text \<open>
  \<^verbatim>\<open>confusion_matrix(y_true, y_pred)\<close> without a \<^verbatim>\<open>labels\<close> argument ranges over the
  labels that occur in \<^verbatim>\<open>y_true\<close> or in \<^verbatim>\<open>y_pred\<close>, sorted; entry (i, j) counts the
  samples of true label i predicted as label j.
\<close>

definition confusion_matrix :: "real list \<Rightarrow> real list \<Rightarrow> error + nat list list" where
  "confusion_matrix y_true y_pred =
     (case check_targets y_true y_pred of
        Inl e \<Rightarrow> Inl e
      | Inr u \<Rightarrow>
          (let labels = unique (y_true @ y_pred)
           in Inr (map (\<lambda>i. map (\<lambda>j. count_where (\<lambda>(a, b). a = i \<and> b = j)
                                          (zip y_true y_pred)) labels) labels)))"

text \<open>
  The numerical routines whose results no property below depends on stay parameters:
  constructing an estimator from hyperparameters, fitting it, the ROC-AUC, the three
  regression metrics, and the wall-clock time a training run takes.
\<close>

record sklearn =
  construct :: "estimator \<Rightarrow> (string \<times> hval) list \<Rightarrow> error + sk_model"
  fit :: "sk_model \<Rightarrow> matrix \<Rightarrow> target \<Rightarrow> error + sk_model"
  roc_auc_score :: "real list \<Rightarrow> real list \<Rightarrow> error + real"
  mean_squared_error :: "target \<Rightarrow> real list \<Rightarrow> error + real"
  mean_absolute_error :: "target \<Rightarrow> real list \<Rightarrow> error + real"
  r2_score :: "target \<Rightarrow> real list \<Rightarrow> error + real"
  total_seconds :: real

subsection \<open>Metrics\<close>

datatype metrics =
    ClassificationMetrics (accuracy: real) (precision: real) (recall: real)
      (f1: real) (roc_auc: "real option") (cm: "nat list list")
  | RegressionMetrics (rmse: real) (mae: real) (r2: real)

text \<open>
  The \<^verbatim>\<open>try\<close> block around the ROC-AUC: an exception of \<^verbatim>\<open>predict_proba\<close>, of the
  column selection \<^verbatim>\<open>[:, 1]\<close> or of \<^verbatim>\<open>roc_auc_score\<close> is caught and gives \<^verbatim>\<open>None\<close>.
\<close>

definition try_roc_auc ::
  "sklearn \<Rightarrow> (matrix \<Rightarrow> error + proba) \<Rightarrow> real list \<Rightarrow> matrix \<Rightarrow> real option" where
  "try_roc_auc sk proba y_true X_test =
     (case proba X_test of
        Inl e \<Rightarrow> None
      | Inr P \<Rightarrow>
          (if length P < 2 then None
           else (case roc_auc_score sk y_true (P ! 1) of
                   Inl e \<Rightarrow> None
                 | Inr v \<Rightarrow> Some v)))"

definition has_predict_proba :: "sk_model option \<Rightarrow> (matrix \<Rightarrow> error + proba) option" where
  "has_predict_proba mo = (case mo of None \<Rightarrow> None | Some m \<Rightarrow> predict_proba m)"

definition calculate_metrics ::
  "sklearn \<Rightarrow> trainer \<Rightarrow> target \<Rightarrow> real list \<Rightarrow> matrix \<Rightarrow> error + metrics" where
  "calculate_metrics sk t y_true y_pred X_test =
     (if problem_type t = ''classification''
      then (case y_true of
              ObjT ss \<Rightarrow> Inl (LibraryError ''Mix of label input types (string and number)'')
            | NumT yt \<Rightarrow>
                (case accuracy_score yt y_pred of
                   Inl e \<Rightarrow> Inl e
                 | Inr acc \<Rightarrow>
                     (let n_classes = length (unique yt);
                          average = (if n_classes = 2 then Binary else Weighted)
                      in case precision_score yt y_pred average 0 of
                           Inl e \<Rightarrow> Inl e
                         | Inr p \<Rightarrow>
                        (case recall_score yt y_pred average 0 of
                           Inl e \<Rightarrow> Inl e
                         | Inr r \<Rightarrow>
                        (case f1_score yt y_pred average 0 of
                           Inl e \<Rightarrow> Inl e
                         | Inr f \<Rightarrow>
                        (let roc = (case has_predict_proba (model t) of
                                      Some proba \<Rightarrow>
                                        (if n_classes = 2 then try_roc_auc sk proba yt X_test
                                         else None)
                                    | None \<Rightarrow> None)
                         in case confusion_matrix yt y_pred of
                              Inl e \<Rightarrow> Inl e
                            | Inr c \<Rightarrow> Inr (ClassificationMetrics acc p r f roc c)))))))
      else (case mean_squared_error sk y_true y_pred of
              Inl e \<Rightarrow> Inl e
            | Inr mse \<Rightarrow>
           (case mean_absolute_error sk y_true y_pred of
              Inl e \<Rightarrow> Inl e
            | Inr a \<Rightarrow>
           (case r2_score sk y_true y_pred of
              Inl e \<Rightarrow> Inl e
            | Inr r \<Rightarrow> Inr (RegressionMetrics (sqrt mse) a r)))))"

subsection \<open>Feature importance\<close>

record importance_entry =
  feature :: string
  importance :: real

text \<open>\<^verbatim>\<open>np.abs(coef_).mean(axis=0)\<close>: per column, the mean over the rows (the classes).\<close>

definition mean_abs_axis0 :: "real list list \<Rightarrow> real list" where
  "mean_abs_axis0 rows =
     map (\<lambda>c. sum_list (map abs c) / real (length rows)) (transpose rows)"

text \<open>
  \<open>model_importances\<close> is the local variable \<^verbatim>\<open>importances\<close>, or \<open>None\<close> where the
  method returns the empty list at once. \<^verbatim>\<open>list.sort(key=..., reverse=True)\<close> is
  stable: entries of equal importance keep their order. Nothing in the \<^verbatim>\<open>try\<close> block
  raises on real numbers, so the \<^verbatim>\<open>except\<close> branch has no counterpart here.
\<close>

definition model_importances :: "sk_model option \<Rightarrow> real list option" where
  "model_importances mo =
     (case mo of
        None \<Rightarrow> None
      | Some m \<Rightarrow>
          (case feature_importances m of
             Some v \<Rightarrow> Some v
           | None \<Rightarrow>
               (case coef m of
                  Some (Coef2 rows) \<Rightarrow> Some (mean_abs_axis0 rows)
                | Some (Coef1 cs) \<Rightarrow> Some (map abs cs)
                | None \<Rightarrow> None)))"

definition get_feature_importance :: "trainer \<Rightarrow> importance_entry list" where
  "get_feature_importance t =
     (case model_importances (model t) of
        None \<Rightarrow> []
      | Some importances \<Rightarrow>
          sort_key (\<lambda>x. - importance x)
            (map (\<lambda>(f, i). \<lparr>feature = f, importance = i\<rparr>)
                 (zip (feature_names t) importances)))"

subsection \<open>Training\<close>

record training_result =
  result_metrics :: metrics
  feature_importance :: "importance_entry list"
  training_duration :: int

text \<open>\<^verbatim>\<open>int(x)\<close> truncates towards zero.\<close>

definition py_int :: "real \<Rightarrow> int" where
  "py_int x = (if 0 \<le> x then \<lfloor>x\<rfloor> else \<lceil>x\<rceil>)"

definition train ::
  "sklearn \<Rightarrow> trainer \<Rightarrow> frame \<Rightarrow> frame \<Rightarrow> target \<Rightarrow> target
     \<Rightarrow> (error + training_result) \<times> trainer" where
  "train sk t X_train X_test y_train y_test =
     (case preprocess_data t X_train y_train True of
        (Inl e, t1) \<Rightarrow> (Inl e, t1)
      | (Inr (X_train_processed, y_train_processed), t1) \<Rightarrow>
     (case preprocess_data t1 X_test y_test False of
        (Inl e, t2) \<Rightarrow> (Inl e, t2)
      | (Inr (X_test_processed, y_test_processed), t2) \<Rightarrow>
     (case get_model_class t2 of
        None \<Rightarrow> (Inl (UnknownAlgorithm (algorithm t2)), t2)
      | Some model_class \<Rightarrow>
     (case construct sk model_class (hyperparameters t2) of
        Inl e \<Rightarrow> (Inl e, t2)
      | Inr m0 \<Rightarrow>
     (case fit sk m0 X_train_processed y_train_processed of
        Inl e \<Rightarrow> (Inl e, t2\<lparr>model := Some m0\<rparr>)
      | Inr m \<Rightarrow>
     (let t3 = t2\<lparr>model := Some m\<rparr>
      in case predict m X_test_processed of
           Inl e \<Rightarrow> (Inl e, t3)
         | Inr y_pred \<Rightarrow>
        (case calculate_metrics sk t3 y_test_processed y_pred X_test_processed of
           Inl e \<Rightarrow> (Inl e, t3)
         | Inr ms \<Rightarrow>
             (Inr \<lparr>result_metrics = ms,
                   feature_importance = get_feature_importance t3,
                   training_duration = py_int (total_seconds sk)\<rparr>, t3))))))))"

subsection \<open>Saving and loading the model bundle\<close>

text \<open>
  The bundle \<^verbatim>\<open>save_model\<close> hands to \<^verbatim>\<open>joblib.dump\<close>, key by key. The files written
  with joblib are a map from paths to bundles: \<^verbatim>\<open>joblib.load\<close> returns the object
  that \<^verbatim>\<open>joblib.dump\<close> stored under the path, and raises when there is none.
\<close>

record model_bundle =
  bundle_model :: sk_model
  bundle_scaler :: "standard_scaler option"
  bundle_label_encoder :: "string list option"
  bundle_feature_names :: "string list"
  bundle_algorithm :: string
  bundle_problem_type :: string

record files =
  joblib_files :: "string \<rightharpoonup> model_bundle"
  csv_files :: "string \<rightharpoonup> frame"

definition save_model :: "trainer \<Rightarrow> files \<Rightarrow> string \<Rightarrow> (error + unit) \<times> files" where
  "save_model t fs filepath =
     (case model t of
        None \<Rightarrow> (Inl NoModelToSave, fs)
      | Some m \<Rightarrow>
          (let model_bundle =
                 \<lparr>bundle_model = m, bundle_scaler = scaler t,
                  bundle_label_encoder = label_encoder t,
                  bundle_feature_names = feature_names t,
                  bundle_algorithm = algorithm t,
                  bundle_problem_type = problem_type t\<rparr>
           in (Inr (), fs\<lparr>joblib_files := (joblib_files fs)(filepath \<mapsto> model_bundle)\<rparr>)))"

definition load_model :: "files \<Rightarrow> string \<Rightarrow> error + trainer" where
  "load_model fs filepath =
     (case joblib_files fs filepath of
        None \<Rightarrow> Inl (LibraryError ''No such file or directory'')
      | Some model_bundle \<Rightarrow>
          Inr ((init_trainer (bundle_algorithm model_bundle)
                             (bundle_problem_type model_bundle) [])
                 \<lparr>model := Some (bundle_model model_bundle),
                  scaler := bundle_scaler model_bundle,
                  label_encoder := bundle_label_encoder model_bundle,
                  feature_names := bundle_feature_names model_bundle\<rparr>))"

section \<open>The predictor\<close>

text \<open>
  \<^verbatim>\<open>output_df[name] = values\<close>: the values must be as many as the rows; a column of
  that name is replaced where it stands, a new name is appended.
\<close>

fun upsert :: "string \<Rightarrow> column \<Rightarrow> (string \<times> column) list \<Rightarrow> (string \<times> column) list" where
  "upsert name v [] = [(name, v)]"
| "upsert name v ((n, c) # cs) =
     (if n = name then (n, v) # cs else (n, c) # upsert name v cs)"

fun column_length :: "column \<Rightarrow> nat" where
  "column_length (NumCol xs) = length xs"
| "column_length (ObjCol ss) = length ss"

definition assign :: "frame \<Rightarrow> string \<Rightarrow> column \<Rightarrow> error + frame" where
  "assign df name v =
     (if column_length v \<noteq> nrows df
      then Inl (LibraryError ''Length of values does not match length of index'')
      else Inr (df\<lparr>columns := upsert name v (columns df)\<rparr>))"

fun target_column :: "target \<Rightarrow> column" where
  "target_column (NumT ys) = NumCol (map Some ys)"
| "target_column (ObjT ss) = ObjCol (map Some ss)"

fun target_length :: "target \<Rightarrow> nat" where
  "target_length (NumT ys) = length ys"
| "target_length (ObjT ss) = length ss"

text \<open>\<^verbatim>\<open>df[names]\<close>, once every name is known to be a column of \<open>df\<close>.\<close>

definition select_columns :: "frame \<Rightarrow> string list \<Rightarrow> (string \<times> column) list" where
  "select_columns df names =
     List.map_filter (\<lambda>n. map_option (Pair n) (map_of (columns df) n)) names"

text \<open>\<^verbatim>\<open>probabilities.max(axis=1)\<close>; an array without columns has no maximum.\<close>

definition max_axis1 :: "proba \<Rightarrow> error + real list" where
  "max_axis1 P =
     (case P of
        [] \<Rightarrow> Inl (LibraryError ''zero-size array to reduction operation maximum'')
      | c # cs \<Rightarrow> Inr (foldl (\<lambda>acc col. map2 max acc col) c cs))"

text \<open>
  The body of the \<^verbatim>\<open>try\<close> block of \<^verbatim>\<open>predict\<close> from the validation of the features
  to the finished \<^verbatim>\<open>output_df\<close>, for a loaded trainer and a loaded input table. It
  returns the output table and the predictions.
\<close>

definition make_predictions ::
  "trainer \<Rightarrow> sk_model \<Rightarrow> matrix \<Rightarrow> error + target \<times> proba option" where
  "make_predictions tr m X =
     (case predict m X of
        Inl e \<Rightarrow> Inl e
      | Inr predictions \<Rightarrow>
          (case predict_proba m of
             Some proba \<Rightarrow>
               (case proba X of
                  Inl e \<Rightarrow> Inl e
                | Inr probabilities \<Rightarrow>
                    (case (if problem_type tr = ''classification''
                           then label_encoder tr else None) of
                       Some classes \<Rightarrow>
                         (case le_inverse_transform classes predictions of
                            Inl e \<Rightarrow> Inl e
                          | Inr decoded \<Rightarrow> Inr (ObjT decoded, Some probabilities))
                     | None \<Rightarrow> Inr (NumT predictions, Some probabilities)))
           | None \<Rightarrow> Inr (NumT predictions, None)))"

definition create_output ::
  "frame \<Rightarrow> target \<Rightarrow> proba option \<Rightarrow> error + frame" where
  "create_output df predictions probabilities =
     (case assign df ''prediction'' (target_column predictions) of
        Inl e \<Rightarrow> Inl e
      | Inr out1 \<Rightarrow>
          (case probabilities of
             None \<Rightarrow> Inr out1
           | Some P \<Rightarrow>
               (case max_axis1 P of
                  Inl e \<Rightarrow> Inl e
                | Inr conf \<Rightarrow>
               (case assign out1 ''confidence'' (NumCol (map Some conf)) of
                  Inl e \<Rightarrow> Inl e
                | Inr out2 \<Rightarrow>
                    (if length P = 2
                     then (case assign out2 ''probability_class_0''
                                  (NumCol (map Some (P ! 0))) of
                             Inl e \<Rightarrow> Inl e
                           | Inr out3 \<Rightarrow>
                               assign out3 ''probability_class_1''
                                 (NumCol (map Some (P ! 1))))
                     else Inr out2)))))"

definition predict_with :: "trainer \<Rightarrow> frame \<Rightarrow> error + frame \<times> target" where
  "predict_with tr df =
     (let missing_features = set (feature_names tr) - set (map fst (columns df))
      in if missing_features \<noteq> {} then Inl (MissingFeatures missing_features)
         else
           (let selected = select_columns df (feature_names tr);
                X = to_matrix (nrows df) (encode_categoricals selected)
            in case (case scaler tr of
                       None \<Rightarrow> Inr X
                     | Some sc \<Rightarrow> scaler_transform sc (map fst selected) X) of
                 Inl e \<Rightarrow> Inl e
               | Inr X' \<Rightarrow>
                   (case model tr of
                      None \<Rightarrow> Inl AttributeError
                    | Some m \<Rightarrow>
                        (case make_predictions tr m X' of
                           Inl e \<Rightarrow> Inl e
                         | Inr (predictions, probabilities) \<Rightarrow>
                             (case create_output df predictions probabilities of
                                Inl e \<Rightarrow> Inl e
                              | Inr output_df \<Rightarrow> Inr (output_df, predictions))))))"

text \<open>
  \<^verbatim>\<open>predict\<close>: load the bundle and the input table, run the body, write the output
  table. Every exception is caught and returned as the failure response; the response
  keeps the exception itself where the script keeps its message.
\<close>

datatype response = Success (prediction_count: nat) (output_path: string) | Failure error

definition read_csv :: "files \<Rightarrow> string \<Rightarrow> error + frame" where
  "read_csv fs path =
     (case csv_files fs path of
        None \<Rightarrow> Inl (LibraryError ''No such file or directory'')
      | Some df \<Rightarrow> Inr df)"

definition predict_run :: "files \<Rightarrow> string \<Rightarrow> string \<Rightarrow> string \<Rightarrow> response \<times> files" where
  "predict_run fs model_path input_data_path out_path =
     (case load_model fs model_path of
        Inl e \<Rightarrow> (Failure e, fs)
      | Inr tr \<Rightarrow>
          (case read_csv fs input_data_path of
             Inl e \<Rightarrow> (Failure e, fs)
           | Inr df \<Rightarrow>
               (case predict_with tr df of
                  Inl e \<Rightarrow> (Failure e, fs)
                | Inr (output_df, predictions) \<Rightarrow>
                    (Success (target_length predictions) out_path,
                     fs\<lparr>csv_files := (csv_files fs)(out_path \<mapsto> output_df)\<rparr>))))"




section \<open>Sample inputs\<close>

text \<open>
  Small estimators and tables on which the theorems below are instantiated: an
  estimator that predicts 0 for every row, one that predicts the first feature of each
  row, the latter with a two-class probability output, and stand-ins for the library
  routines that are parameters.
\<close>

definition constant_model :: sk_model where
  "constant_model =
     \<lparr>predict = (\<lambda>X. Inr (map (\<lambda>r. 0) X)), predict_proba = None,
      feature_importances = None, coef = None\<rparr>"

definition echo_model :: sk_model where
  "echo_model =
     \<lparr>predict = (\<lambda>X. Inr (map (\<lambda>r. case r of Some v # rest \<Rightarrow> v | _ \<Rightarrow> 0) X)),
      predict_proba = None, feature_importances = None, coef = None\<rparr>"

definition echo_proba_model :: sk_model where
  "echo_proba_model =
     echo_model\<lparr>predict_proba :=
       Some (\<lambda>X. Inr [map (\<lambda>r. 1 / 4) X, map (\<lambda>r. 3 / 4) X])\<rparr>"

definition sample_sklearn :: sklearn where
  "sample_sklearn =
     \<lparr>construct = (\<lambda>c hp. Inr constant_model),
      fit = (\<lambda>m X y. Inr m),
      roc_auc_score = (\<lambda>y_true y_score. Inr (1 / 2)),
      mean_squared_error = (\<lambda>y_true y_pred. Inr 0),
      mean_absolute_error = (\<lambda>y_true y_pred. Inr 0),
      r2_score = (\<lambda>y_true y_pred. Inr 1),
      total_seconds = 0\<rparr>"

definition no_files :: files where
  "no_files = \<lparr>joblib_files = Map.empty, csv_files = Map.empty\<rparr>"

definition sample_bundle :: model_bundle where
  "sample_bundle =
     \<lparr>bundle_model = constant_model, bundle_scaler = None, bundle_label_encoder = None,
      bundle_feature_names = [''age'', ''city'', ''income''],
      bundle_algorithm = ''random_forest'', bundle_problem_type = ''regression''\<rparr>"

definition sample_files :: files where
  "sample_files =
     \<lparr>joblib_files = [''model.pkl'' \<mapsto> sample_bundle],
      csv_files = [''input.csv'' \<mapsto>
                     \<lparr>nrows = 1, columns = [(''city'', ObjCol [Some ''x''])]\<rparr>]\<rparr>"

definition city_train :: frame where
  "city_train = \<lparr>nrows = 2, columns = [(''city'', ObjCol [Some ''a'', Some ''b''])]\<rparr>"

definition city_test :: frame where
  "city_test = \<lparr>nrows = 1, columns = [(''city'', ObjCol [Some ''b''])]\<rparr>"

definition age_test :: frame where
  "age_test = \<lparr>nrows = 2, columns = [(''age'', NumCol [None, Some 10])]\<rparr>"

definition x_column_train :: frame where
  "x_column_train = \<lparr>nrows = 2, columns = [(''x'', NumCol [Some 1, Some 3])]\<rparr>"

definition z_column_test :: frame where
  "z_column_test = \<lparr>nrows = 1, columns = [(''z'', NumCol [Some 5])]\<rparr>"

definition yes_no_trainer :: trainer where
  "yes_no_trainer =
     (init_trainer ''random_forest'' ''classification'' [])
       \<lparr>label_encoder := Some [''no'', ''yes''], feature_names := [''x'']\<rparr>"

definition x_table :: frame where
  "x_table = \<lparr>nrows = 1, columns = [(''x'', NumCol [Some 1])]\<rparr>"


definition linear_model :: sk_model where
  "linear_model = constant_model\<lparr>coef := Some (Coef2 [[1, - 3], [2, - 5]])\<rparr>"

section \<open>Properties\<close>

subsection \<open>Saving and loading\<close>

lemma make_predictions_hyperparameters:
  "make_predictions (t\<lparr>hyperparameters := hp\<rparr>) m X = make_predictions t m X"
  by (simp add: make_predictions_def cong: sum.case_cong option.case_cong)

lemma predict_with_hyperparameters:
  "predict_with (t\<lparr>hyperparameters := hp\<rparr>) df = predict_with t df"
  by (simp add: predict_with_def make_predictions_hyperparameters
      cong: sum.case_cong option.case_cong)

lemma load_after_save:
  assumes "model t = Some m"
  shows "load_model (snd (save_model t fs path)) path = Inr (t\<lparr>hyperparameters := []\<rparr>)"
  using assms by (simp add: save_model_def load_model_def init_trainer_def)

text \<open>
  C4. A trainer that holds a model can be saved; loading the saved bundle gives a
  trainer with the same model, scaler, label encoder, feature names, algorithm and
  problem type, and predicting with the loaded trainer gives the same result as
  predicting with the original one, on every input table.
\<close>

theorem artifact_round_trip:
  assumes "model t \<noteq> None"
  shows "fst (save_model t fs path) = Inr () \<and>
         (\<exists>tr. load_model (snd (save_model t fs path)) path = Inr tr \<and>
               model tr = model t \<and> scaler tr = scaler t \<and>
               label_encoder tr = label_encoder t \<and>
               feature_names tr = feature_names t \<and>
               algorithm tr = algorithm t \<and> problem_type tr = problem_type t \<and>
               predict_with tr df = predict_with t df)"
proof -
  from assms obtain m where m: "model t = Some m"
    by auto
  have saved: "fst (save_model t fs path) = Inr ()"
    using m by (simp add: save_model_def)
  show ?thesis
    using saved load_after_save [OF m] predict_with_hyperparameters by simp
qed

theorem artifact_round_trip_witness:
  "model ((init_trainer ''knn'' ''regression'' [])\<lparr>model := Some constant_model\<rparr>) \<noteq> None \<and>
   fst (save_model ((init_trainer ''knn'' ''regression'' [])\<lparr>model := Some constant_model\<rparr>)
          no_files ''model.pkl'') = Inr () \<and>
   (\<exists>tr. load_model
           (snd (save_model
                   ((init_trainer ''knn'' ''regression'' [])\<lparr>model := Some constant_model\<rparr>)
                   no_files ''model.pkl'')) ''model.pkl'' = Inr tr \<and>
         model tr = Some constant_model \<and> algorithm tr = ''knn'')"
  using artifact_round_trip
    [of "(init_trainer ''knn'' ''regression'' [])\<lparr>model := Some constant_model\<rparr>"
        no_files "''model.pkl''"]
  by (auto simp add: init_trainer_def)

subsection \<open>Validation of the input columns\<close>

text \<open>
  C5. When the bundle and the input table load and some feature name of the bundle is
  not a column of the table, the run ends with the missing-features error, whose names
  are exactly the feature names that are not columns; the result does not depend on the
  model or the rows, and no file is written.
\<close>

theorem missing_features_reported:
  assumes "load_model fs model_path = Inr tr"
    and "read_csv fs input_data_path = Inr df"
    and "\<not> set (feature_names tr) \<subseteq> set (map fst (columns df))"
  shows "predict_run fs model_path input_data_path out_path =
           (Failure (MissingFeatures
                       (set (feature_names tr) - set (map fst (columns df)))), fs)"
  using assms by (simp add: predict_run_def predict_with_def)

theorem missing_features_reported_witness:
  "load_model sample_files ''model.pkl'' =
     Inr ((init_trainer ''random_forest'' ''regression'' [])
            \<lparr>model := Some constant_model, feature_names := [''age'', ''city'', ''income'']\<rparr>) \<and>
   read_csv sample_files ''input.csv'' =
     Inr \<lparr>nrows = 1, columns = [(''city'', ObjCol [Some ''x''])]\<rparr> \<and>
   predict_run sample_files ''model.pkl'' ''input.csv'' ''out.csv'' =
     (Failure (MissingFeatures {''age'', ''income''}), sample_files)"
proof -
  let ?tr = "(init_trainer ''random_forest'' ''regression'' [])
            \<lparr>model := Some constant_model, feature_names := [''age'', ''city'', ''income'']\<rparr>"
  let ?df = "\<lparr>nrows = 1, columns = [(''city'', ObjCol [Some ''x''])]\<rparr>"
  have l: "load_model sample_files ''model.pkl'' = Inr ?tr"
    by (simp add: load_model_def sample_files_def sample_bundle_def init_trainer_def)
  have r: "read_csv sample_files ''input.csv'' = Inr ?df"
    by (simp add: read_csv_def sample_files_def)
  have m: "\<not> set (feature_names ?tr) \<subseteq> set (map fst (columns ?df))"
    by simp
  have s: "set (feature_names ?tr) - set (map fst (columns ?df)) = {''age'', ''income''}"
    by auto
  show ?thesis
    using missing_features_reported [OF l r m, of "''out.csv''"] l r s by simp
qed

subsection \<open>Evaluation of the model on the sample inputs\<close>

lemmas preprocess_defs =
  preprocess_data_def has_null_def encode_categoricals_def to_matrix_def nth_cell_def
  scale_features_def handle_target_def init_trainer_def le_fit_transform_def le_fit_def
  imputer_fit_transform_def present_def upt_rec

lemmas predict_defs =
  predict_with_def select_columns_def List.map_filter_def encode_categoricals_def
  to_matrix_def nth_cell_def make_predictions_def create_output_def assign_def
  max_axis1_def init_trainer_def le_fit_transform_def le_fit_def upt_rec

subsection \<open>The label encoder and the trainer's attributes\<close>

text \<open>
  On its own input, \<^verbatim>\<open>fit_transform\<close> is \<^verbatim>\<open>fit\<close> followed by \<^verbatim>\<open>transform\<close>; and a
  preprocessing call outside training returns the trainer as it was.
\<close>

lemma index_of_sorted:
  "sorted xs \<Longrightarrow> distinct xs \<Longrightarrow> x \<in> set xs \<Longrightarrow>
   index_of xs x = Some (length (filter (\<lambda>c. c < x) xs))"
proof (induction xs)
  case Nil
  then show ?case by simp
next
  case (Cons a xs)
  show ?case
  proof (cases "x = a")
    case True
    have "filter (\<lambda>c. c < a) xs = []"
      using Cons.prems(1) by (auto simp add: filter_empty_conv)
    then show ?thesis
      using True by simp
  next
    case False
    then have "x \<in> set xs" and "a < x"
      using Cons.prems by auto
    then show ?thesis
      using Cons False by simp
  qed
qed

lemma le_transform_seen:
  assumes "set zs \<subseteq> set ys"
  shows "le_transform (le_fit ys) zs =
           Inr (map (\<lambda>y. real (length (filter (\<lambda>c. c < y) (le_fit ys)))) zs)"
  using assms
proof (induction zs)
  case Nil
  then show ?case by simp
next
  case (Cons z zs)
  have "index_of (le_fit ys) z = Some (length (filter (\<lambda>c. c < z) (le_fit ys)))"
    using Cons.prems by (intro index_of_sorted) (simp_all add: le_fit_def)
  then show ?case
    using Cons by simp
qed

lemma le_fit_transform_transform:
  "le_transform (le_fit ys) ys = Inr (le_fit_transform ys)"
  by (simp add: le_transform_seen le_fit_transform_def)

lemma scale_features_transform_keeps_trainer:
  "snd (scale_features t names M False) = t"
  by (simp add: scale_features_def split: option.splits)

lemma handle_target_transform_keeps_trainer:
  "snd (handle_target t y False) = t"
  by (simp add: handle_target_def split: option.splits sum.splits target.splits)

lemma preprocess_data_transform_keeps_trainer:
  "snd (preprocess_data t X y False) = t"
proof (cases "if has_null X then imputer_fit_transform X else Inr X")
  case (Inl e)
  then show ?thesis
    by (simp add: preprocess_data_def)
next
  case (Inr X1)
  let ?M = "to_matrix (nrows X1) (encode_categoricals (columns X1))"
  let ?names = "map fst (columns X1)"
  obtain r2 t2 where s: "scale_features t ?names ?M False = (r2, t2)"
    by (cases "scale_features t ?names ?M False")
  have t2: "t2 = t"
    using scale_features_transform_keeps_trainer [of t ?names ?M] s by simp
  show ?thesis
  proof (cases r2)
    case (Inl e)
    then show ?thesis
      using Inr s t2 by (simp add: preprocess_data_def Let_def)
  next
    case r: (Inr M')
    obtain r3 t3 where h: "handle_target t y False = (r3, t3)"
      by (cases "handle_target t y False")
    have t3: "t3 = t"
      using handle_target_transform_keeps_trainer [of t y] h by simp
    show ?thesis
      using Inr s t2 r h t3 by (cases r3) (simp_all add: preprocess_data_def Let_def)
  qed
qed

subsection \<open>Preprocessing outside the training call\<close>

text \<open>
  C1. The claim is that a call outside training applies only parameters fitted on the
  training split. The code fits a new imputer and new label encoders on whatever table
  it is given. On the sample tables: training encodes the cities a, b as 0, 1; the test
  call on the single city b fits a new encoder and encodes b as 0; the test call on an
  age column with a missing cell fills it with the mean of the test column, 10; and the
  predictor encodes the city b as 0 as well, which the echoing model shows in its
  prediction. The trainer is returned unchanged by the two test calls.
\<close>

theorem preprocessing_refits_on_new_data:
  "preprocess_data (init_trainer ''random_forest'' ''regression'' [])
       city_train (NumT [5, 6]) True =
     (Inr ([[Some 0], [Some 1]], NumT [5, 6]),
      (init_trainer ''random_forest'' ''regression'' [])\<lparr>feature_names := [''city'']\<rparr>) \<and>
   preprocess_data
       ((init_trainer ''random_forest'' ''regression'' [])\<lparr>feature_names := [''city'']\<rparr>)
       city_test (NumT [6]) False =
     (Inr ([[Some 0]], NumT [6]),
      (init_trainer ''random_forest'' ''regression'' [])\<lparr>feature_names := [''city'']\<rparr>) \<and>
   preprocess_data
       ((init_trainer ''random_forest'' ''regression'' [])\<lparr>feature_names := [''age'']\<rparr>)
       age_test (NumT [5, 6]) False =
     (Inr ([[Some 10], [Some 10]], NumT [5, 6]),
      (init_trainer ''random_forest'' ''regression'' [])\<lparr>feature_names := [''age'']\<rparr>) \<and>
   predict_with ((init_trainer ''random_forest'' ''regression'' [])
                   \<lparr>model := Some echo_model, feature_names := [''city'']\<rparr>) city_test =
     Inr (\<lparr>nrows = 1,
           columns = [(''city'', ObjCol [Some ''b'']), (''prediction'', NumCol [Some 0])]\<rparr>,
          NumT [0])"
  by (simp add: preprocess_defs predict_defs city_train_def city_test_def age_test_def
      echo_model_def)

subsection \<open>Training with an algorithm that is not registered\<close>

lemma scale_features_frame:
  assumes "scale_features t names M b = (r, t')"
  shows "algorithm t' = algorithm t \<and> problem_type t' = problem_type t \<and>
         hyperparameters t' = hyperparameters t \<and> model t' = model t \<and>
         feature_names t' = feature_names t \<and> label_encoder t' = label_encoder t"
  using assms by (auto simp add: scale_features_def split: if_splits sum.splits option.splits)

lemma handle_target_frame:
  assumes "handle_target t y b = (r, t')"
  shows "algorithm t' = algorithm t \<and> problem_type t' = problem_type t \<and>
         hyperparameters t' = hyperparameters t \<and> model t' = model t \<and>
         feature_names t' = feature_names t \<and> scaler t' = scaler t"
  using assms
  by (auto simp add: handle_target_def split: if_splits sum.splits option.splits target.splits)

lemma preprocess_data_frame:
  assumes "preprocess_data t X y b = (r, t')"
  shows "algorithm t' = algorithm t \<and> problem_type t' = problem_type t \<and>
         hyperparameters t' = hyperparameters t \<and> model t' = model t \<and>
         feature_names t' = (if b then map fst (columns X) else feature_names t)"
proof -
  let ?t1 = "if b then t\<lparr>feature_names := map fst (columns X)\<rparr> else t"
  show ?thesis
  proof (cases "if has_null X then imputer_fit_transform X else Inr X")
    case (Inl e)
    then have "t' = ?t1"
      using assms by (simp add: preprocess_data_def Let_def)
    then show ?thesis by simp
  next
    case (Inr X1)
    let ?M = "to_matrix (nrows X1) (encode_categoricals (columns X1))"
    obtain r2 t2 where s: "scale_features ?t1 (map fst (columns X1)) ?M b = (r2, t2)"
      by (cases "scale_features ?t1 (map fst (columns X1)) ?M b")
    have f2: "algorithm t2 = algorithm t \<and> problem_type t2 = problem_type t \<and>
         hyperparameters t2 = hyperparameters t \<and> model t2 = model t \<and>
         feature_names t2 = (if b then map fst (columns X) else feature_names t)"
      using scale_features_frame [OF s] by simp
    show ?thesis
    proof (cases r2)
      case (Inl e)
      then have "t' = t2"
        using assms Inr s by (simp add: preprocess_data_def Let_def)
      then show ?thesis using f2 by simp
    next
      case (Inr M')
      obtain r3 t3 where h: "handle_target t2 y b = (r3, t3)"
        by (cases "handle_target t2 y b")
      have "t' = t3"
        using assms \<open>(if has_null X then imputer_fit_transform X else Inr X) = Inr X1\<close> s Inr h
        by (cases r3) (simp_all add: preprocess_data_def Let_def)
      then show ?thesis
        using handle_target_frame [OF h] f2 by simp
    qed
  qed
qed

lemma get_model_class_cong:
  "algorithm t' = algorithm t \<Longrightarrow> problem_type t' = problem_type t \<Longrightarrow>
   get_model_class t' = get_model_class t"
  by (simp add: get_model_class_def)

text \<open>
  C2, as stated, fails. With the unregistered algorithm svm, \<^verbatim>\<open>train\<close> has preprocessed
  both splits when it raises: the trainer holds the feature names and the label encoder
  fitted on the training data. When the test target has a label the training target
  lacks, the error raised is the one of preprocessing, not the configuration error. And
  a problem type other than classification is looked up in the regression table, so the
  pair (clustering, knn) is accepted.
\<close>

theorem train_unknown_algorithm_counterexample:
  "train sample_sklearn (init_trainer ''svm'' ''classification'' [])
       city_train city_test (ObjT [''no'', ''yes'']) (ObjT [''yes'']) =
     (Inl (UnknownAlgorithm ''svm''),
      (init_trainer ''svm'' ''classification'' [])
        \<lparr>label_encoder := Some [''no'', ''yes''], feature_names := [''city'']\<rparr>) \<and>
   train sample_sklearn (init_trainer ''svm'' ''classification'' [])
       city_train city_test (ObjT [''no'', ''no'']) (ObjT [''yes'']) =
     (Inl (LibraryError ''y contains previously unseen labels''),
      (init_trainer ''svm'' ''classification'' [])
        \<lparr>label_encoder := Some [''no''], feature_names := [''city'']\<rparr>) \<and>
   get_model_class (init_trainer ''knn'' ''clustering'' []) = Some KNeighborsRegressor"
  by (simp add: train_def preprocess_defs city_train_def city_test_def get_model_class_def
      CLASSIFICATION_ALGORITHMS_def REGRESSION_ALGORITHMS_def)

text \<open>
  C2, amended. When the algorithm is not in the table the problem type selects,
  \<^verbatim>\<open>train\<close> preprocesses the training split and then the test split and fails: with
  the error of the first preprocessing call that raises, and with the unknown-algorithm
  error when neither does. The trainer it leaves is the trainer as the preprocessing of
  the training split left it, so the attributes assigned there stay assigned, the
  feature names among them; its model is as it was, and a trainer that had no model has
  none afterwards, so that \<^verbatim>\<open>save_model\<close> refuses to write a bundle.
\<close>

theorem train_unknown_algorithm:
  assumes "get_model_class t = None"
  shows "train sk t X_train X_test y_train y_test =
           (case preprocess_data t X_train y_train True of
              (Inl e, t1) \<Rightarrow> (Inl e, t1)
            | (Inr train_processed, t1) \<Rightarrow>
                (case preprocess_data t1 X_test y_test False of
                   (Inl e, t2) \<Rightarrow> (Inl e, t2)
                 | (Inr test_processed, t2) \<Rightarrow>
                     (Inl (UnknownAlgorithm (algorithm t)), t2))) \<and>
         isl (fst (train sk t X_train X_test y_train y_test)) \<and>
         snd (train sk t X_train X_test y_train y_test) =
           snd (preprocess_data t X_train y_train True) \<and>
         feature_names (snd (train sk t X_train X_test y_train y_test)) =
           map fst (columns X_train) \<and>
         model (snd (train sk t X_train X_test y_train y_test)) = model t \<and>
         (model t = None \<longrightarrow>
            save_model (snd (train sk t X_train X_test y_train y_test)) fs path =
              (Inl NoModelToSave, fs))"
proof -
  obtain r1 t1 where p1: "preprocess_data t X_train y_train True = (r1, t1)"
    by (cases "preprocess_data t X_train y_train True")
  obtain r2 t2 where p2: "preprocess_data t1 X_test y_test False = (r2, t2)"
    by (cases "preprocess_data t1 X_test y_test False")
  note f1 = preprocess_data_frame [OF p1]
  have t2: "t2 = t1"
    using preprocess_data_transform_keeps_trainer [of t1 X_test y_test] p2 by simp
  have g2: "get_model_class t2 = None"
    using assms f1 t2 get_model_class_cong [of t1 t] by simp
  have res: "train sk t X_train X_test y_train y_test =
      (case r1 of Inl e \<Rightarrow> (Inl e, t1)
       | Inr a \<Rightarrow> (case r2 of Inl e \<Rightarrow> (Inl e, t2)
                   | Inr b \<Rightarrow> (Inl (UnknownAlgorithm (algorithm t)), t2)))"
    using p1 p2 g2 f1 t2 by (auto simp add: train_def split: sum.splits prod.splits)
  have eq: "train sk t X_train X_test y_train y_test =
           (case preprocess_data t X_train y_train True of
              (Inl e, t1) \<Rightarrow> (Inl e, t1)
            | (Inr train_processed, t1) \<Rightarrow>
                (case preprocess_data t1 X_test y_test False of
                   (Inl e, t2) \<Rightarrow> (Inl e, t2)
                 | (Inr test_processed, t2) \<Rightarrow>
                     (Inl (UnknownAlgorithm (algorithm t)), t2)))"
    unfolding res using p1 p2 by (simp split: sum.splits)
  have a: "isl (fst (train sk t X_train X_test y_train y_test))"
    unfolding res by (simp split: sum.splits)
  have s: "snd (train sk t X_train X_test y_train y_test) =
           snd (preprocess_data t X_train y_train True)"
    unfolding res using p1 t2 by (simp split: sum.splits)
  have n: "feature_names (snd (train sk t X_train X_test y_train y_test)) =
           map fst (columns X_train)"
    unfolding s using p1 f1 by simp
  have b: "model (snd (train sk t X_train X_test y_train y_test)) = model t"
    unfolding s using p1 f1 by simp
  have d: "save_model (snd (train sk t X_train X_test y_train y_test)) fs path =
              (Inl NoModelToSave, fs)" if "model t = None"
    using b that by (simp add: save_model_def)
  show ?thesis
    using eq a s n b d by (intro conjI impI)
qed

theorem train_unknown_algorithm_witness:
  "get_model_class (init_trainer ''svm'' ''classification'' []) = None \<and>
   train sample_sklearn (init_trainer ''svm'' ''classification'' [])
       city_train city_test (ObjT [''no'', ''yes'']) (ObjT [''yes'']) =
     (Inl (UnknownAlgorithm ''svm''),
      (init_trainer ''svm'' ''classification'' [])
        \<lparr>label_encoder := Some [''no'', ''yes''], feature_names := [''city'']\<rparr>) \<and>
   save_model (snd (train sample_sklearn (init_trainer ''svm'' ''classification'' [])
                      city_train city_test (ObjT [''no'', ''yes'']) (ObjT [''yes''])))
       no_files ''model.pkl'' = (Inl NoModelToSave, no_files)"
proof -
  let ?t = "init_trainer ''svm'' ''classification'' []"
  let ?t1 = "?t\<lparr>label_encoder := Some [''no'', ''yes''], feature_names := [''city'']\<rparr>"
  have g: "get_model_class ?t = None"
    by (simp add: get_model_class_def init_trainer_def CLASSIFICATION_ALGORITHMS_def)
  have p1: "preprocess_data ?t city_train (ObjT [''no'', ''yes'']) True =
              (Inr ([[Some 0], [Some 1]], NumT [0, 1]), ?t1)"
    by (simp add: preprocess_defs city_train_def)
  have p2: "preprocess_data ?t1 city_test (ObjT [''yes'']) False =
              (Inr ([[Some 0]], NumT [1]), ?t1)"
    by (simp add: preprocess_defs city_test_def)
  have n: "model ?t = None"
    by (simp add: init_trainer_def)
  from train_unknown_algorithm [OF g, of sample_sklearn city_train city_test
      "ObjT [''no'', ''yes'']" "ObjT [''yes'']" no_files "''model.pkl''"]
  show ?thesis
    using g p1 p2 n by (simp add: init_trainer_def save_model_def)
qed

text \<open>
  With a scaling algorithm and a test table whose column is named differently from the
  training column, the error raised is the scaler's, from the preprocessing of the test
  split.
\<close>

lemma train_scaler_refuses_renamed_columns:
  "train sample_sklearn (init_trainer ''logistic_regression'' ''regression'' [])
       x_column_train z_column_test (NumT [5, 6]) (NumT [7]) =
     (Inl (LibraryError
             ''The feature names should match those that were passed during fit''),
      (init_trainer ''logistic_regression'' ''regression'' [])
        \<lparr>scaler := Some (Fitted [''x''] [Some 2] [Some 1]), feature_names := [''x'']\<rparr>)"
  by (simp add: train_def preprocess_defs x_column_train_def z_column_test_def
      scaler_fit_def scaler_transform_def column_mean_def column_scale_def Let_def)

subsection \<open>Decoding of the predictions\<close>

text \<open>
  C3. The claim is that predictions are decoded whenever the bundle has a label
  encoder. The code decodes inside the branch that tests for \<^verbatim>\<open>predict_proba\<close>. With
  the label encoder (no, yes) and a model that predicts class 1: without probability
  output the prediction written is the number 1; with it, the label yes.
\<close>

theorem prediction_not_decoded_without_proba:
  "predict_with (yes_no_trainer\<lparr>model := Some echo_model\<rparr>) x_table =
     Inr (\<lparr>nrows = 1,
           columns = [(''x'', NumCol [Some 1]), (''prediction'', NumCol [Some 1])]\<rparr>,
          NumT [1]) \<and>
   predict_with (yes_no_trainer\<lparr>model := Some echo_proba_model\<rparr>) x_table =
     Inr (\<lparr>nrows = 1,
           columns = [(''x'', NumCol [Some 1]), (''prediction'', ObjCol [Some ''yes'']),
                      (''confidence'', NumCol [Some (3 / 4)]),
                      (''probability_class_0'', NumCol [Some (1 / 4)]),
                      (''probability_class_1'', NumCol [Some (3 / 4)])]\<rparr>,
          ObjT [''yes''])"
  by (simp add: predict_defs yes_no_trainer_def x_table_def echo_model_def
      echo_proba_model_def)

subsection \<open>The output table\<close>
















subsection \<open>Classification metrics\<close>

lemma unique_props:
  "sorted (unique xs) \<and> distinct (unique xs) \<and> set (unique xs) = set xs \<and>
   length (unique xs) = card (set xs)"
  by (simp add: unique_def length_remdups_card_conv)


lemma calculate_metrics_classification:
  assumes "problem_type t = ''classification''"
    and "calculate_metrics sk t (NumT yt) yp X = Inr ms"
  shows "accuracy_score yt yp = Inr (accuracy ms) \<and>
         precision_score yt yp (if length (unique yt) = 2 then Binary else Weighted) 0
           = Inr (precision ms) \<and>
         recall_score yt yp (if length (unique yt) = 2 then Binary else Weighted) 0
           = Inr (recall ms) \<and>
         f1_score yt yp (if length (unique yt) = 2 then Binary else Weighted) 0
           = Inr (f1 ms) \<and>
         confusion_matrix yt yp = Inr (cm ms) \<and>
         roc_auc ms =
           (case has_predict_proba (model t) of
              Some proba \<Rightarrow>
                (if length (unique yt) = 2 then try_roc_auc sk proba yt X else None)
            | None \<Rightarrow> None)"
  using assms
  by (auto simp add: calculate_metrics_def Let_def split: sum.splits)

lemma calculate_metrics_classification_Inr:
  assumes "problem_type t = ''classification''"
    and "accuracy_score yt yp = Inr a"
    and "precision_score yt yp (if length (unique yt) = 2 then Binary else Weighted) 0 = Inr p"
    and "recall_score yt yp (if length (unique yt) = 2 then Binary else Weighted) 0 = Inr r"
    and "f1_score yt yp (if length (unique yt) = 2 then Binary else Weighted) 0 = Inr f"
    and "confusion_matrix yt yp = Inr c"
  shows "calculate_metrics sk t (NumT yt) yp X =
           Inr (ClassificationMetrics a p r f
                  (case has_predict_proba (model t) of
                     Some proba \<Rightarrow>
                       (if length (unique yt) = 2 then try_roc_auc sk proba yt X else None)
                   | None \<Rightarrow> None) c)"
  using assms by (simp add: calculate_metrics_def Let_def)

lemma confusion_matrix_Inr:
  assumes "confusion_matrix yt yp = Inr c"
  shows "c = map (\<lambda>i. map (\<lambda>j. count_where (\<lambda>(a, b). a = i \<and> b = j) (zip yt yp))
                          (unique (yt @ yp))) (unique (yt @ yp))"
  using assms by (auto simp add: confusion_matrix_def Let_def split: sum.splits)

lemmas metrics_defs =
  calculate_metrics_def accuracy_score_def check_targets_def precision_score_def
  recall_score_def f1_score_def prf_score_def unique_def count_where_def tp_count_def
  pred_count_def true_count_def prf_divide_def confusion_matrix_def has_predict_proba_def
  try_roc_auc_def init_trainer_def Let_def

text \<open>
  C6, as stated, fails: the matrix ranges over the labels of the true and of the
  predicted values together. With the true labels 0, 0 and the predictions 0, 1 there
  is one distinct true label and the matrix is 2 by 2.
\<close>

theorem confusion_matrix_counterexample:
  "calculate_metrics sample_sklearn (init_trainer ''random_forest'' ''classification'' [])
       (NumT [0, 0]) [0, 1] [[Some 5], [Some 6]] =
     Inr (ClassificationMetrics (1 / 2) 1 (1 / 2) (2 / 3) None [[1, 1], [0, 0]]) \<and>
   card (set [0 :: real, 0]) = 1"
  by (simp add: metrics_defs)

text \<open>
  C6, amended. In a classification run that yields metrics, the confusion matrix is
  square, its dimension the number of distinct values among the true and the predicted
  labels together; its rows and columns follow the sorted distinct labels, entry (i, j)
  counting the samples of true label i predicted as label j. When every predicted label
  occurs among the true labels, the dimension is the number of distinct true labels.
\<close>

theorem confusion_matrix_shape:
  assumes "problem_type t = ''classification''"
    and "calculate_metrics sk t (NumT y_true) y_pred X_test = Inr ms"
  shows "length (cm ms) = card (set y_true \<union> set y_pred) \<and>
         (\<forall>row \<in> set (cm ms). length row = card (set y_true \<union> set y_pred)) \<and>
         sorted (unique (y_true @ y_pred)) \<and> distinct (unique (y_true @ y_pred)) \<and>
         set (unique (y_true @ y_pred)) = set y_true \<union> set y_pred \<and>
         (\<forall>i < card (set y_true \<union> set y_pred). \<forall>j < card (set y_true \<union> set y_pred).
            cm ms ! i ! j =
              count_where (\<lambda>(a, b). a = unique (y_true @ y_pred) ! i \<and>
                                     b = unique (y_true @ y_pred) ! j) (zip y_true y_pred)) \<and>
         (set y_pred \<subseteq> set y_true \<longrightarrow> length (cm ms) = card (set y_true))"
proof -
  let ?labels = "unique (y_true @ y_pred)"
  have c: "cm ms = map (\<lambda>i. map (\<lambda>j. count_where (\<lambda>(a, b). a = i \<and> b = j) (zip y_true y_pred))
                          ?labels) ?labels"
    using calculate_metrics_classification [OF assms] confusion_matrix_Inr by blast
  have n: "length ?labels = card (set y_true \<union> set y_pred)"
    using unique_props [of "y_true @ y_pred"] by simp
  have s: "sorted ?labels" and d: "distinct ?labels"
    and u: "set ?labels = set y_true \<union> set y_pred"
    using unique_props [of "y_true @ y_pred"] by simp_all
  have l: "length (cm ms) = card (set y_true \<union> set y_pred)"
    unfolding c using n by simp
  have r: "\<forall>row \<in> set (cm ms). length row = card (set y_true \<union> set y_pred)"
    unfolding c using n by auto
  have e: "\<forall>i < card (set y_true \<union> set y_pred). \<forall>j < card (set y_true \<union> set y_pred).
            cm ms ! i ! j =
              count_where (\<lambda>(a, b). a = ?labels ! i \<and> b = ?labels ! j) (zip y_true y_pred)"
    unfolding c using n by simp
  have sub: "length (cm ms) = card (set y_true)" if "set y_pred \<subseteq> set y_true"
  proof -
    have "set y_true \<union> set y_pred = set y_true"
      using that by auto
    then show ?thesis
      using l by simp
  qed
  show ?thesis
    using l r s d u e sub by simp
qed

theorem confusion_matrix_shape_witness:
  "problem_type (init_trainer ''random_forest'' ''classification'' []) = ''classification'' \<and>
   calculate_metrics sample_sklearn (init_trainer ''random_forest'' ''classification'' [])
       (NumT [0, 0]) [0, 1] [[Some 5], [Some 6]] =
     Inr (ClassificationMetrics (1 / 2) 1 (1 / 2) (2 / 3) None [[1, 1], [0, 0]]) \<and>
   length (cm (ClassificationMetrics (1 / 2) 1 (1 / 2) (2 / 3) None [[1, 1], [0, 0]])) =
     card (set [0 :: real, 0] \<union> set [0, 1])"
proof -
  let ?t = "init_trainer ''random_forest'' ''classification'' []"
  have p: "problem_type ?t = ''classification''"
    by (simp add: init_trainer_def)
  have c: "calculate_metrics sample_sklearn ?t (NumT [0, 0]) [0, 1] [[Some 5], [Some 6]] =
     Inr (ClassificationMetrics (1 / 2) 1 (1 / 2) (2 / 3) None [[1, 1], [0, 0]])"
    by (simp add: metrics_defs)
  show ?thesis
    using p c confusion_matrix_shape [OF p c] by simp
qed









text \<open>
  C8. In a classification run that yields metrics: a ROC-AUC value is present only if
  the true labels have exactly two distinct values and the model exposes
  \<^verbatim>\<open>predict_proba\<close>; under these two conditions it is the value of \<^verbatim>\<open>roc_auc_score\<close> on
  the second probability column, and null when \<^verbatim>\<open>predict_proba\<close>, the column selection
  or \<^verbatim>\<open>roc_auc_score\<close> raises; and whatever the model, the run returns the same
  accuracy, precision, recall, F1 and confusion matrix.
\<close>

theorem roc_auc_computed_iff:
  assumes "problem_type t = ''classification''"
    and "calculate_metrics sk t (NumT y_true) y_pred X_test = Inr ms"
  shows "(roc_auc ms \<noteq> None \<longrightarrow>
            card (set y_true) = 2 \<and> has_predict_proba (model t) \<noteq> None) \<and>
         (\<forall>proba. card (set y_true) = 2 \<and> has_predict_proba (model t) = Some proba \<longrightarrow>
            roc_auc ms =
              (case proba X_test of
                 Inl e \<Rightarrow> None
               | Inr P \<Rightarrow>
                   (if length P < 2 then None
                    else (case roc_auc_score sk y_true (P ! 1) of
                            Inl e \<Rightarrow> None
                          | Inr v \<Rightarrow> Some v)))) \<and>
         (\<forall>mo. \<exists>roc. calculate_metrics sk (t\<lparr>model := mo\<rparr>) (NumT y_true) y_pred X_test =
                  Inr (ClassificationMetrics (accuracy ms) (precision ms) (recall ms) (f1 ms)
                         roc (cm ms)))"
proof -
  note d = calculate_metrics_classification [OF assms]
  have n: "length (unique y_true) = card (set y_true)"
    using unique_props [of y_true] by simp
  have r: "roc_auc ms =
           (case has_predict_proba (model t) of
              Some proba \<Rightarrow>
                (if card (set y_true) = 2 then try_roc_auc sk proba y_true X_test else None)
            | None \<Rightarrow> None)"
    using d n by (simp cong: option.case_cong)
  have a: "roc_auc ms \<noteq> None \<longrightarrow>
            card (set y_true) = 2 \<and> has_predict_proba (model t) \<noteq> None"
    unfolding r by (simp split: option.splits)
  have b: "\<forall>proba. card (set y_true) = 2 \<and> has_predict_proba (model t) = Some proba \<longrightarrow>
            roc_auc ms =
              (case proba X_test of
                 Inl e \<Rightarrow> None
               | Inr P \<Rightarrow>
                   (if length P < 2 then None
                    else (case roc_auc_score sk y_true (P ! 1) of
                            Inl e \<Rightarrow> None
                          | Inr v \<Rightarrow> Some v)))"
    unfolding r by (simp add: try_roc_auc_def)
  have c: "\<exists>roc. calculate_metrics sk (t\<lparr>model := mo\<rparr>) (NumT y_true) y_pred X_test =
                  Inr (ClassificationMetrics (accuracy ms) (precision ms) (recall ms) (f1 ms)
                         roc (cm ms))" for mo
  proof -
    have p: "problem_type (t\<lparr>model := mo\<rparr>) = ''classification''"
      using assms(1) by simp
    show ?thesis
      using calculate_metrics_classification_Inr [OF p d [THEN conjunct1]
          d [THEN conjunct2, THEN conjunct1]
          d [THEN conjunct2, THEN conjunct2, THEN conjunct1]
          d [THEN conjunct2, THEN conjunct2, THEN conjunct2, THEN conjunct1]
          d [THEN conjunct2, THEN conjunct2, THEN conjunct2, THEN conjunct2, THEN conjunct1],
          of sk X_test]
      by (rule exI)
  qed
  show ?thesis
    using a b c by blast
qed

theorem roc_auc_computed_iff_witness:
  "problem_type ((init_trainer ''logistic_regression'' ''classification'' [])
                   \<lparr>model := Some echo_proba_model\<rparr>) = ''classification'' \<and>
   calculate_metrics sample_sklearn
       ((init_trainer ''logistic_regression'' ''classification'' [])
          \<lparr>model := Some echo_proba_model\<rparr>)
       (NumT [0, 1]) [0, 1] [[Some 0], [Some 1]] =
     Inr (ClassificationMetrics 1 1 1 1 (Some (1 / 2)) [[1, 0], [0, 1]]) \<and>
   card (set [0 :: real, 1]) = 2"
proof -
  let ?t = "(init_trainer ''logistic_regression'' ''classification'' [])
              \<lparr>model := Some echo_proba_model\<rparr>"
  let ?ms = "ClassificationMetrics 1 1 1 1 (Some (1 / 2)) [[1, 0], [0, 1]]"
  have p: "problem_type ?t = ''classification''"
    by (simp add: init_trainer_def)
  have c: "calculate_metrics sample_sklearn ?t (NumT [0, 1]) [0, 1] [[Some 0], [Some 1]] =
             Inr ?ms"
    by (simp add: metrics_defs echo_proba_model_def echo_model_def sample_sklearn_def)
  have "roc_auc ?ms \<noteq> None \<longrightarrow> card (set [0 :: real, 1]) = 2"
    using roc_auc_computed_iff [OF p c] by blast
  then show ?thesis
    using p c by simp
qed

subsection \<open>Feature importance\<close>

lemma model_importances_None:
  "model_importances mo = None \<longleftrightarrow>
     (\<forall>m. mo = Some m \<longrightarrow> feature_importances m = None \<and> coef m = None)"
  by (auto simp add: model_importances_def split: option.splits coefs.splits)

lemma mean_abs_axis0_rectangle:
  assumes "rows \<noteq> []" and "\<forall>r \<in> set rows. length r = n"
  shows "mean_abs_axis0 rows =
           map (\<lambda>j. sum_list (map (\<lambda>r. \<bar>r ! j\<bar>) rows) / real (length rows)) [0..<n]"
proof -
  have t: "transpose rows = map (\<lambda>i. map (\<lambda>j. rows ! j ! i) [0..<length rows]) [0..<n]"
    using assms by (intro transpose_rectangle) simp_all
  have "map (\<lambda>j. \<bar>rows ! j ! i\<bar>) [0..<length rows] = map (\<lambda>r. \<bar>r ! i\<bar>) rows" for i
    by (rule nth_equalityI) simp_all
  then show ?thesis
    by (simp add: mean_abs_axis0_def t comp_def)
qed

lemma sorted_by_negated_key:
  "sorted_wrt (\<ge>) (map importance (sort_key (\<lambda>x. - importance x) zs))"
proof -
  have "sorted (map (\<lambda>x. - importance x) (sort_key (\<lambda>x. - importance x) zs))"
    by (rule sorted_sort_key)
  then show ?thesis
    by (simp add: sorted_wrt_map)
qed

lemma distinct_map_sort_key:
  "distinct (map f (sort_key k zs)) = distinct (map f zs)"
  by (simp add: distinct_map)

lemma features_of_entries:
  assumes "length imps = length names"
  shows "map feature (map (\<lambda>(f, i). \<lparr>feature = f, importance = i\<rparr>) (zip names imps)) = names"
proof -
  have "map feature (map (\<lambda>(f, i). \<lparr>feature = f, importance = i\<rparr>) (zip names imps)) =
          map fst (zip names imps)"
    by (simp add: split_beta)
  then show ?thesis
    using assms by simp
qed

text \<open>
  C7. The feature importance list is empty when the model exposes neither
  \<^verbatim>\<open>feature_importances_\<close> nor \<^verbatim>\<open>coef_\<close>, and only then are there no importances.
  Otherwise, the importances being as many as the feature names and the names distinct,
  the list has one entry per feature name, without duplicate names, in non-increasing
  order of importance, each name paired with the importance at its position. The
  importances are the native ones when present; else the absolute coefficients; else,
  for a two-dimensional coefficient array, the mean over the classes of the absolute
  coefficients.
\<close>

theorem feature_importance_shape:
  "(model_importances (model t) = None \<longrightarrow> get_feature_importance t = []) \<and>
   (model_importances (model t) = None \<longleftrightarrow>
      (\<forall>m. model t = Some m \<longrightarrow> feature_importances m = None \<and> coef m = None)) \<and>
   (\<forall>imps. model_importances (model t) = Some imps \<and>
           length imps = length (feature_names t) \<and> distinct (feature_names t) \<longrightarrow>
      length (get_feature_importance t) = length (feature_names t) \<and>
      set (map feature (get_feature_importance t)) = set (feature_names t) \<and>
      distinct (map feature (get_feature_importance t)) \<and>
      sorted_wrt (\<ge>) (map importance (get_feature_importance t)) \<and>
      set (get_feature_importance t) =
        set (map (\<lambda>(f, i). \<lparr>feature = f, importance = i\<rparr>) (zip (feature_names t) imps))) \<and>
   (\<forall>m v. model t = Some m \<and> feature_importances m = Some v \<longrightarrow>
      model_importances (model t) = Some v) \<and>
   (\<forall>m cs. model t = Some m \<and> feature_importances m = None \<and> coef m = Some (Coef1 cs) \<longrightarrow>
      model_importances (model t) = Some (map abs cs)) \<and>
   (\<forall>m rows n. model t = Some m \<and> feature_importances m = None \<and>
        coef m = Some (Coef2 rows) \<and> rows \<noteq> [] \<and> (\<forall>r \<in> set rows. length r = n) \<longrightarrow>
      model_importances (model t) =
        Some (map (\<lambda>j. sum_list (map (\<lambda>r. \<bar>r ! j\<bar>) rows) / real (length rows)) [0..<n]))"
proof -
  have a: "model_importances (model t) = None \<longrightarrow> get_feature_importance t = []"
    by (simp add: get_feature_importance_def)
  have b: "model_importances (model t) = None \<longleftrightarrow>
      (\<forall>m. model t = Some m \<longrightarrow> feature_importances m = None \<and> coef m = None)"
    by (rule model_importances_None)
  have c: "length (get_feature_importance t) = length (feature_names t) \<and>
      set (map feature (get_feature_importance t)) = set (feature_names t) \<and>
      distinct (map feature (get_feature_importance t)) \<and>
      sorted_wrt (\<ge>) (map importance (get_feature_importance t)) \<and>
      set (get_feature_importance t) =
        set (map (\<lambda>(f, i). \<lparr>feature = f, importance = i\<rparr>) (zip (feature_names t) imps))"
    if h: "model_importances (model t) = Some imps \<and>
           length imps = length (feature_names t) \<and> distinct (feature_names t)" for imps
  proof -
    let ?zs = "map (\<lambda>(f, i). \<lparr>feature = f, importance = i\<rparr>) (zip (feature_names t) imps)"
    have g: "get_feature_importance t = sort_key (\<lambda>x. - importance x) ?zs"
      using h by (simp add: get_feature_importance_def)
    have f: "map feature ?zs = feature_names t"
      using h by (intro features_of_entries) simp
    have l: "length (get_feature_importance t) = length (feature_names t)"
      unfolding g using h by simp
    have d: "distinct (map feature (get_feature_importance t))"
      unfolding g distinct_map_sort_key f using h by simp
    have s: "set (map feature (get_feature_importance t)) = set (feature_names t)"
    proof -
      have "set (map feature (get_feature_importance t)) = set (map feature ?zs)"
        unfolding g by (simp only: set_map set_sort)
      then show ?thesis
        unfolding f .
    qed
    have o: "sorted_wrt (\<ge>) (map importance (get_feature_importance t))"
      unfolding g by (rule sorted_by_negated_key)
    have e: "set (get_feature_importance t) = set ?zs"
      unfolding g by simp
    show ?thesis
      using l s d o e by simp
  qed
  have d: "\<forall>m v. model t = Some m \<and> feature_importances m = Some v \<longrightarrow>
      model_importances (model t) = Some v"
    by (simp add: model_importances_def)
  have e: "\<forall>m cs. model t = Some m \<and> feature_importances m = None \<and> coef m = Some (Coef1 cs) \<longrightarrow>
      model_importances (model t) = Some (map abs cs)"
    by (simp add: model_importances_def)
  have f: "\<forall>m rows n. model t = Some m \<and> feature_importances m = None \<and>
        coef m = Some (Coef2 rows) \<and> rows \<noteq> [] \<and> (\<forall>r \<in> set rows. length r = n) \<longrightarrow>
      model_importances (model t) =
        Some (map (\<lambda>j. sum_list (map (\<lambda>r. \<bar>r ! j\<bar>) rows) / real (length rows)) [0..<n])"
    by (simp add: model_importances_def mean_abs_axis0_rectangle)
  show ?thesis
    using a b c d e f by blast
qed

theorem feature_importance_shape_witness:
  "model_importances (model ((init_trainer ''logistic_regression'' ''classification'' [])
        \<lparr>model := Some linear_model, feature_names := [''a'', ''b'']\<rparr>)) = Some [3 / 2, 4] \<and>
   get_feature_importance ((init_trainer ''logistic_regression'' ''classification'' [])
        \<lparr>model := Some linear_model, feature_names := [''a'', ''b'']\<rparr>) =
     [\<lparr>feature = ''b'', importance = 4\<rparr>, \<lparr>feature = ''a'', importance = 3 / 2\<rparr>] \<and>
   distinct (map feature
     (get_feature_importance ((init_trainer ''logistic_regression'' ''classification'' [])
        \<lparr>model := Some linear_model, feature_names := [''a'', ''b'']\<rparr>)))"
proof -
  let ?t = "(init_trainer ''logistic_regression'' ''classification'' [])
        \<lparr>model := Some linear_model, feature_names := [''a'', ''b'']\<rparr>"
  have m': "model_importances (Some linear_model) = Some [3 / 2, 4]"
    by (simp add: model_importances_def linear_model_def constant_model_def
        mean_abs_axis0_def)
  have m: "model_importances (model ?t) = Some [3 / 2, 4]"
    using m' by (simp add: init_trainer_def)
  have g: "get_feature_importance ?t =
     [\<lparr>feature = ''b'', importance = 4\<rparr>, \<lparr>feature = ''a'', importance = 3 / 2\<rparr>]"
    by (simp add: get_feature_importance_def init_trainer_def m')
  have h: "model_importances (model ?t) = Some [3 / 2, 4] \<and>
           length [3 / 2, 4 :: real] = length (feature_names ?t) \<and> distinct (feature_names ?t)"
    using m by (simp add: init_trainer_def)
  have "distinct (map feature (get_feature_importance ?t))"
    using feature_importance_shape [of ?t] h by blast
  then show ?thesis
    using m g by simp
qed

end
